theory Spec2Isabelle
  imports Complex_Main "HOL-Library.AList" "HOL-Library.Sublist" "HOL-Library.Multiset"
begin

section \<open>Python values\<close>

text \<open>
  A Python \<open>str\<close> is a sequence of Unicode code points, and \<open>len\<close> counts code points;
  it is modelled as a list of code points. \<open>ascii\<close> writes an ASCII literal.
\<close>

type_synonym pystr = "nat list"

definition ascii :: "string \<Rightarrow> pystr" where
  "ascii s = map of_char s"

text \<open>The exceptions the modelled code can raise.\<close>

datatype error =
    AttributeError pystr
  | KeyError
  | IndexError
  | ValueError
  | TypeError
  | AssertionError
  | EmbeddingFailure
  | StorageFailure

text \<open>\<open>s.split(":")\<close>: one part more than there are separators, empty parts kept.\<close>

fun py_split :: "nat \<Rightarrow> pystr \<Rightarrow> pystr list" where
  "py_split sep [] = [[]]"
| "py_split sep (c # cs) =
     (if c = sep then [] # py_split sep cs
      else (case py_split sep cs of
              [] \<Rightarrow> [[c]]
            | p # ps \<Rightarrow> (c # p) # ps))"

text \<open>
  \<open>str(n)\<close> for a Python \<open>int\<close>, as the f-string of \<open>_make_key\<close> formats \<open>mem_id\<close>:
  decimal digits, a leading minus sign for a negative number.
\<close>

fun str_nat :: "nat \<Rightarrow> pystr" where
  "str_nat n = (if n < 10 then [48 + n] else str_nat (n div 10) @ [48 + n mod 10])"

declare str_nat.simps [simp del]

definition str_int :: "int \<Rightarrow> pystr" where
  "str_int i = (if i < 0 then 45 # str_nat (nat (- i)) else str_nat (nat i))"

text \<open>
  \<open>str.isspace\<close> on one code point: the code points \<open>str.strip()\<close> removes from both
  ends.
\<close>

definition py_isspace :: "nat \<Rightarrow> bool" where
  "py_isspace c \<longleftrightarrow>
     (9 \<le> c \<and> c \<le> 13) \<or> (28 \<le> c \<and> c \<le> 32) \<or> c = 133 \<or> c = 160 \<or> c = 5760 \<or>
     (8192 \<le> c \<and> c \<le> 8202) \<or> c = 8232 \<or> c = 8233 \<or> c = 8239 \<or> c = 8287 \<or> c = 12288"

definition py_strip :: "pystr \<Rightarrow> pystr" where
  "py_strip s = rev (dropWhile py_isspace (rev (dropWhile py_isspace s)))"

text \<open>
  \<open>int(s)\<close> on a string, as CPython 3.11 reads it. A string with a code point outside
  ASCII is first rewritten: code points below 127 stay, the other whitespace becomes a
  blank, a decimal digit of any script becomes its ASCII digit, and anything else
  becomes \<open>?\<close>. Then blanks and the ASCII controls 9 to 13 are dropped from both ends,
  an optional sign is read, and decimal digits follow, where single underscores may
  separate digits. Anything else raises \<open>ValueError\<close>. \<open>decimal_zeros\<close> lists the digit
  zero of every script of Unicode 14; the nine digits after it follow in order. (The
  limit of 4300 digits on conversions between \<open>int\<close> and \<open>str\<close> is not modelled.)
\<close>

definition is_digit :: "nat \<Rightarrow> bool" where
  "is_digit c \<longleftrightarrow> 48 \<le> c \<and> c \<le> 57"

definition int_isspace :: "nat \<Rightarrow> bool" where
  "int_isspace c \<longleftrightarrow> (9 \<le> c \<and> c \<le> 13) \<or> c = 32"

definition decimal_zeros :: "nat list" where
  "decimal_zeros =
     [48, 1632, 1776, 1984, 2406, 2534, 2662, 2790, 2918, 3046, 3174, 3302, 3430, 3558, 3664,
      3792, 3872, 4160, 4240, 6112, 6160, 6470, 6608, 6784, 6800, 6992, 7088, 7232, 7248,
      42528, 43216, 43264, 43472, 43504, 43600, 44016, 65296, 66720, 68912, 69734, 69872,
      69942, 70096, 70384, 70736, 70864, 71248, 71360, 71472, 71904, 72016, 72784, 73040,
      73120, 92768, 92864, 93008, 120782, 120792, 120802, 120812, 120822, 123200, 123632,
      125264, 130032]"

definition to_decimal :: "nat \<Rightarrow> nat option" where
  "to_decimal c =
     (case filter (\<lambda>z. z \<le> c \<and> c \<le> z + 9) decimal_zeros of
        [] \<Rightarrow> None
      | z # _ \<Rightarrow> Some (c - z))"

definition decimal_and_space_to_ascii :: "pystr \<Rightarrow> pystr" where
  "decimal_and_space_to_ascii s =
     (if list_all (\<lambda>c. c < 128) s then s
      else map (\<lambda>c. if c < 127 then c
                     else if py_isspace c then 32
                     else (case to_decimal c of None \<Rightarrow> 63 | Some d \<Rightarrow> 48 + d)) s)"

fun digits_value :: "nat \<Rightarrow> pystr \<Rightarrow> nat option" where
  "digits_value acc [] = Some acc"
| "digits_value acc [c] = (if is_digit c then Some (acc * 10 + (c - 48)) else None)"
| "digits_value acc (c # d # cs) =
     (if is_digit c then
        (if d = 95 then
           (case cs of [] \<Rightarrow> None
            | e # es \<Rightarrow> if is_digit e then digits_value (acc * 10 + (c - 48)) cs else None)
         else digits_value (acc * 10 + (c - 48)) (d # cs))
      else None)"

definition py_int :: "pystr \<Rightarrow> error + int" where
  "py_int s =
     (let t = decimal_and_space_to_ascii s;
          u = rev (dropWhile int_isspace (rev (dropWhile int_isspace t)));
          (neg, body) = (case u of
                           [] \<Rightarrow> (False, [])
                         | c # cs \<Rightarrow> if c = 45 then (True, cs)
                                    else if c = 43 then (False, cs) else (False, u))
      in if body = [] then Inl ValueError
         else (case digits_value 0 body of
                 None \<Rightarrow> Inl ValueError
               | Some n \<Rightarrow> Inr (if neg then - int n else int n)))"

section \<open>The similarity index (memory/vector\_index.py)\<close>

text \<open>
  The FAISS structure \<open>IndexIDMap2(IndexFlatIP(dim))\<close> is a library outside the
  repository. It is modelled by what the wrapper relies on: the stored rows, each an
  identifier with a vector, in the order \<open>add_with_ids\<close> received them (an identifier
  may occur more than once, nothing is ever deleted), and an exact search that returns
  the \<open>n\<close> best identifiers, best first, padded with \<open>-1\<close>. Vector components are of an
  arbitrary type \<open>'a\<close>; the arithmetic of \<open>faiss.normalize_L2\<close> and of the inner product
  are parameters \<open>nrm\<close> and \<open>ip\<close> of the operations that use them.

  A numpy array is its element type, whether its memory is C-contiguous, and its
  elements in order. FAISS takes \<open>float32\<close>; numpy gives \<open>float64\<close> to a list of Python
  floats.
\<close>

datatype dtype = Float32 | Float64

record 'a ndarray =
  dtype :: dtype
  contiguous :: bool
  elems :: "'a list"

definition f32 :: "'a list \<Rightarrow> 'a ndarray" where
  "f32 xs = \<lparr>dtype = Float32, contiguous = True, elems = xs\<rparr>"

definition f64 :: "'a list \<Rightarrow> 'a ndarray" where
  "f64 xs = \<lparr>dtype = Float64, contiguous = True, elems = xs\<rparr>"

record 'a VectorIndex =
  dim :: int
  index :: "(int \<times> 'a list) list"
  id_to_key :: "(int \<times> pystr) list"
  key_to_id :: "(pystr \<times> int) list"

text \<open>
  The two dictionaries are association lists in insertion order: \<open>d[k] = v\<close> is
  \<open>AList.update\<close> (an existing key keeps its place, a new one goes last), \<open>del d[k]\<close> is
  \<open>AList.delete\<close>, \<open>len(d)\<close> is the length.
\<close>

definition VectorIndex_init :: "int \<Rightarrow> 'a VectorIndex" where
  "VectorIndex_init d = \<lparr>dim = d, index = [], id_to_key = [], key_to_id = []\<rparr>"

definition make_key :: "pystr \<Rightarrow> pystr \<Rightarrow> int \<Rightarrow> pystr" where
  "make_key agent_id mem_type mem_id = agent_id @ [58] @ mem_type @ [58] @ str_int mem_id"

definition parse_key :: "pystr \<Rightarrow> error + (pystr \<times> pystr \<times> int)" where
  "parse_key key =
     (case py_split 58 key of
        p0 # p1 # p2 # _ \<Rightarrow>
          (case py_int p2 of Inl e \<Rightarrow> Inl e | Inr mid \<Rightarrow> Inr (p0, p1, mid))
      | _ \<Rightarrow> Inl IndexError)"

text \<open>
  \<open>remove_by_key\<close>: both mappings lose the entry. \<open>del self.id_to_key[faiss_id]\<close> raises
  \<open>KeyError\<close> when the handle is no longer a key there; \<open>key_to_id\<close> has lost the key by then.
\<close>

definition remove_by_key :: "'a VectorIndex \<Rightarrow> pystr \<Rightarrow> (error + unit) \<times> 'a VectorIndex" where
  "remove_by_key vi key =
     (case map_of (key_to_id vi) key of
        None \<Rightarrow> (Inr (), vi)
      | Some faiss_id \<Rightarrow>
          (let vi1 = vi\<lparr>key_to_id := AList.delete key (key_to_id vi)\<rparr>
           in case map_of (id_to_key vi1) faiss_id of
                None \<Rightarrow> (Inl KeyError, vi1)
              | Some _ \<Rightarrow> (Inr (), vi1\<lparr>id_to_key := AList.delete faiss_id (id_to_key vi1)\<rparr>)))"

definition remove :: "'a VectorIndex \<Rightarrow> pystr \<Rightarrow> pystr \<Rightarrow> int \<Rightarrow> (error + unit) \<times> 'a VectorIndex" where
  "remove vi agent_id mem_type mem_id = remove_by_key vi (make_key agent_id mem_type mem_id)"

text \<open>
  \<open>faiss.normalize_L2(x)\<close> on the view \<open>x = a.reshape(1, -1)\<close> of the caller's array \<open>a\<close>.
  The view shares the memory of \<open>a\<close>, so the result is the caller's array after the
  call. FAISS refuses memory that is not contiguous (\<open>ValueError\<close>) and elements that
  are not \<open>float32\<close> (\<open>TypeError\<close>), and then leaves the array as it was.
\<close>

definition faiss_normalize_L2 :: "('a list \<Rightarrow> 'a list) \<Rightarrow> 'a ndarray \<Rightarrow> error + 'a ndarray" where
  "faiss_normalize_L2 nrm a =
     (if \<not> contiguous a then Inl ValueError
      else if dtype a \<noteq> Float32 then Inl TypeError
      else Inr (a\<lparr>elems := nrm (elems a)\<rparr>))"

text \<open>
  \<open>add\<close>. The third component of the result is the caller's array after the call. The
  mappings are written before the array is normalised; \<open>add_with_ids\<close> asserts that the
  row has the dimension of the index.
\<close>

definition add ::
  "('a list \<Rightarrow> 'a list) \<Rightarrow> 'a VectorIndex \<Rightarrow> pystr \<Rightarrow> pystr \<Rightarrow> int \<Rightarrow> 'a ndarray
     \<Rightarrow> (error + unit) \<times> 'a VectorIndex \<times> 'a ndarray" where
  "add nrm vi agent_id mem_type mem_id embedding =
     (let key = make_key agent_id mem_type mem_id in
      case (if map_of (key_to_id vi) key \<noteq> None then remove_by_key vi key else (Inr (), vi)) of
        (Inl e, vi1) \<Rightarrow> (Inl e, vi1, embedding)
      | (Inr _, vi1) \<Rightarrow>
          (let faiss_id = int (length (id_to_key vi1));
               vi2 = vi1\<lparr>id_to_key := AList.update faiss_id key (id_to_key vi1),
                         key_to_id := AList.update key faiss_id (key_to_id vi1)\<rparr>
           in case faiss_normalize_L2 nrm embedding of
                Inl e \<Rightarrow> (Inl e, vi2, embedding)
              | Inr emb_2d \<Rightarrow>
                  if int (length (elems embedding)) \<noteq> dim vi2
                  then (Inl AssertionError, vi2, emb_2d)
                  else (Inr (), vi2\<lparr>index := index vi2 @ [(faiss_id, elems emb_2d)]\<rparr>, emb_2d)))"

text \<open>
  \<open>index.search(query_2d, n)\<close> of the FAISS structure: the stored rows by decreasing
  inner product with the query, the first \<open>n\<close> of them, padded with \<open>-1\<close> to length \<open>n\<close>.
  Among rows of equal score the earlier row comes first.
\<close>

definition faiss_search ::
  "('a list \<Rightarrow> 'a list \<Rightarrow> 's::linorder) \<Rightarrow> (int \<times> 'a list) list \<Rightarrow> 'a list \<Rightarrow> nat \<Rightarrow> int list" where
  "faiss_search ip stored q n =
     (let best = take n (rev (sort_key (\<lambda>(i, v). ip q v) (rev stored)))
      in map fst best @ replicate (n - length best) (- 1))"

text \<open>
  The loop of \<open>search\<close> over the candidates \<open>I[0]\<close>, with \<open>results\<close> as accumulator.
  \<open>_parse_key\<close> raises out of the loop; \<open>break\<close> returns the results.
\<close>

fun search_loop :: "(int \<times> pystr) list \<Rightarrow> pystr \<Rightarrow> int \<Rightarrow> int list \<Rightarrow> int list \<Rightarrow> error + int list" where
  "search_loop i2k agent_id k [] results = Inr results"
| "search_loop i2k agent_id k (idx # rest) results =
     (if idx = - 1 then search_loop i2k agent_id k rest results
      else (case map_of i2k idx of
              None \<Rightarrow> search_loop i2k agent_id k rest results
            | Some key \<Rightarrow>
                if key = [] then search_loop i2k agent_id k rest results
                else (case parse_key key of
                        Inl e \<Rightarrow> Inl e
                      | Inr (aid, mtype, mid) \<Rightarrow>
                          if aid = agent_id \<and> mtype = ascii ''semantic'' then
                            (if int (length (results @ [mid])) \<ge> k then Inr (results @ [mid])
                             else search_loop i2k agent_id k rest (results @ [mid]))
                          else search_loop i2k agent_id k rest results)))"

text \<open>
  \<open>search\<close>. The second component of the result is the caller's query array after the
  call: the query is normalised first, as in \<open>add\<close>. The FAISS search asserts the
  dimension of the query and that the number of candidates asked for, \<open>k * 3\<close>, is
  positive.
\<close>

definition search ::
  "('a list \<Rightarrow> 'a list) \<Rightarrow> ('a list \<Rightarrow> 'a list \<Rightarrow> 's::linorder) \<Rightarrow> 'a VectorIndex \<Rightarrow> pystr
     \<Rightarrow> 'a ndarray \<Rightarrow> int \<Rightarrow> (error + int list) \<times> 'a ndarray" where
  "search nrm ip vi agent_id query_emb k =
     (case faiss_normalize_L2 nrm query_emb of
        Inl e \<Rightarrow> (Inl e, query_emb)
      | Inr query_2d \<Rightarrow>
          if int (length (elems query_emb)) = dim vi \<and> 0 < k * 3 then
            (search_loop (id_to_key vi) agent_id k
               (faiss_search ip (index vi) (elems query_2d) (nat (k * 3))) [], query_2d)
          else (Inl AssertionError, query_2d))"

text \<open>\<open>clear_agent\<close>: the keys are collected first, then removed one by one.\<close>

fun remove_keys :: "'a VectorIndex \<Rightarrow> pystr list \<Rightarrow> (error + unit) \<times> 'a VectorIndex" where
  "remove_keys vi [] = (Inr (), vi)"
| "remove_keys vi (k # ks) =
     (case remove_by_key vi k of
        (Inl e, vi1) \<Rightarrow> (Inl e, vi1)
      | (Inr _, vi1) \<Rightarrow> remove_keys vi1 ks)"

definition clear_agent :: "'a VectorIndex \<Rightarrow> pystr \<Rightarrow> (error + unit) \<times> 'a VectorIndex" where
  "clear_agent vi agent_id =
     (let keys_to_remove = filter (prefix (agent_id @ [58])) (map fst (key_to_id vi))
      in remove_keys vi keys_to_remove)"

section \<open>The gating policy (memory/policy/default\_policy.py)\<close>

text \<open>
  An event is the dictionary \<open>{'content': ..., 'role': ...}\<close> of the docstring of
  \<open>add_event\<close>.
\<close>

record event =
  content :: pystr
  role :: pystr

text \<open>
  \<open>str.lower()\<close>: the ASCII capitals are mapped to small letters. The case mappings of
  other scripts are not modelled; no code point outside ASCII is mapped to a letter of
  the stop list, so membership in the stop list is decided as Python decides it.
\<close>

definition py_lower :: "pystr \<Rightarrow> pystr" where
  "py_lower s = map (\<lambda>c. if 65 \<le> c \<and> c \<le> 90 then c + 32 else c) s"

text \<open>The stop list: three Chinese acknowledgements (as code points) and \<open>hello\<close>.\<close>

definition stop_list :: "pystr set" where
  "stop_list = {[0x55EF], [0x54E6], [0x597D, 0x7684], ascii ''hello''}"

definition should_store_as_episodic :: "pystr \<Rightarrow> event \<Rightarrow> bool" where
  "should_store_as_episodic agent_id ev =
     (let c = py_strip (content ev) in
      if length c < 5 then False
      else if py_lower c \<in> stop_list then False
      else True)"


definition allow_user_to_edit_memory :: "pystr \<Rightarrow> pystr \<Rightarrow> bool" where
  "allow_user_to_edit_memory agent_id mem_type = True"

section \<open>The SQLite stores (memory/store)\<close>

text \<open>
  Both stores open the same SQLite file, each statement on a connection of its own; the
  database is the state they share. \<open>io_ok\<close> is \<open>False\<close> for a backend whose statements
  raise (a locked or unreadable file): every store method then raises \<open>StorageFailure\<close>
  and writes nothing. The \<open>timestamp\<close> column, which SQLite fills in and which only
  orders listings and bounds the purge by age, is left out of the rows.
\<close>

text \<open>
  Modelled from the spec: the \<open>CREATE TABLE\<close> of \<open>episodic_memory\<close> is not in the
  repository. Its rows have the columns the statements of \<open>EpisodicStore\<close> name (an
  event record is id, tenant, content, role and creation time), and its \<open>id\<close> is
  durable and unique in the store, assigned as \<open>semantic_memory\<close> declares its own
  (\<open>INTEGER PRIMARY KEY AUTOINCREMENT\<close>): one more than the largest id ever assigned,
  which \<open>episodic_seq\<close> holds.
\<close>

record episodic_row =
  e_id :: int
  e_agent_id :: pystr
  e_content :: pystr
  e_role :: pystr

record semantic_row =
  s_id :: int
  s_agent_id :: pystr
  s_content :: pystr
  s_metadata :: pystr

record database =
  io_ok :: bool
  episodic_memory :: "episodic_row list"
  episodic_seq :: int
  semantic_memory :: "semantic_row list"
  semantic_seq :: int

subsection \<open>EpisodicStore\<close>

definition EpisodicStore_insert ::
  "database \<Rightarrow> pystr \<Rightarrow> pystr \<Rightarrow> pystr \<Rightarrow> (error + int) \<times> database" where
  "EpisodicStore_insert d agent_id c r =
     (if \<not> io_ok d then (Inl StorageFailure, d)
      else (let lastrowid = episodic_seq d + 1
            in (Inr lastrowid,
                d\<lparr>episodic_memory := episodic_memory d @
                      [\<lparr>e_id = lastrowid, e_agent_id = agent_id, e_content = c, e_role = r\<rparr>],
                  episodic_seq := lastrowid\<rparr>)))"

definition EpisodicStore_update_content ::
  "database \<Rightarrow> pystr \<Rightarrow> int \<Rightarrow> pystr \<Rightarrow> (error + bool) \<times> database" where
  "EpisodicStore_update_content d agent_id mem_id new_content =
     (if \<not> io_ok d then (Inl StorageFailure, d)
      else (let hit = (\<lambda>r. e_id r = mem_id \<and> e_agent_id r = agent_id);
                total_changes = length (filter hit (episodic_memory d))
            in (Inr (total_changes > 0),
                d\<lparr>episodic_memory :=
                     map (\<lambda>r. if hit r then r\<lparr>e_content := new_content\<rparr> else r)
                       (episodic_memory d)\<rparr>)))"

definition EpisodicStore_delete_by_id ::
  "database \<Rightarrow> pystr \<Rightarrow> int \<Rightarrow> (error + bool) \<times> database" where
  "EpisodicStore_delete_by_id d agent_id mem_id =
     (if \<not> io_ok d then (Inl StorageFailure, d)
      else (let hit = (\<lambda>r. e_id r = mem_id \<and> e_agent_id r = agent_id);
                total_changes = length (filter hit (episodic_memory d))
            in (Inr (total_changes > 0),
                d\<lparr>episodic_memory := filter (\<lambda>r. \<not> hit r) (episodic_memory d)\<rparr>)))"

definition EpisodicStore_clear :: "database \<Rightarrow> pystr \<Rightarrow> (error + int) \<times> database" where
  "EpisodicStore_clear d agent_id =
     (if \<not> io_ok d then (Inl StorageFailure, d)
      else (let rowcount = length (filter (\<lambda>r. e_agent_id r = agent_id) (episodic_memory d))
            in (Inr (int rowcount),
                d\<lparr>episodic_memory := filter (\<lambda>r. e_agent_id r \<noteq> agent_id) (episodic_memory d)\<rparr>)))"

text \<open>
  \<open>EpisodicStore\<close> defines \<open>insert\<close>, \<open>get_by_id\<close>, \<open>update_content\<close>, \<open>delete_by_id\<close>,
  \<open>list_by_agent_recent\<close>, \<open>search_by_agent\<close>, \<open>delete_before\<close> and \<open>clear\<close>. It has no
  attribute \<open>search\<close>: looking it up raises \<open>AttributeError\<close>, before any statement runs.
  (Nor does it define \<open>list_by_agent\<close>, which its base class declares abstract.)
\<close>

definition EpisodicStore_search ::
  "database \<Rightarrow> pystr \<Rightarrow> pystr \<Rightarrow> (error + episodic_row list) \<times> database" where
  "EpisodicStore_search d agent_id query = (Inl (AttributeError (ascii ''search'')), d)"

subsection \<open>SemanticStore\<close>

definition SemanticStore_insert ::
  "database \<Rightarrow> pystr \<Rightarrow> pystr \<Rightarrow> pystr \<Rightarrow> (error + int) \<times> database" where
  "SemanticStore_insert d agent_id c metadata =
     (if \<not> io_ok d then (Inl StorageFailure, d)
      else (let lastrowid = semantic_seq d + 1
            in (Inr lastrowid,
                d\<lparr>semantic_memory := semantic_memory d @
                      [\<lparr>s_id = lastrowid, s_agent_id = agent_id, s_content = c, s_metadata = metadata\<rparr>],
                  semantic_seq := lastrowid\<rparr>)))"

definition SemanticStore_get_by_ids ::
  "database \<Rightarrow> pystr \<Rightarrow> int list \<Rightarrow> (error + semantic_row list) \<times> database" where
  "SemanticStore_get_by_ids d agent_id ids =
     (if ids = [] then (Inr [], d)
      else if \<not> io_ok d then (Inl StorageFailure, d)
      else (Inr (filter (\<lambda>r. s_agent_id r = agent_id \<and> s_id r \<in> set ids) (semantic_memory d)), d))"

text \<open>\<open>update_content\<close> takes the embedding and does nothing with it.\<close>

definition SemanticStore_update_content ::
  "database \<Rightarrow> pystr \<Rightarrow> int \<Rightarrow> pystr \<Rightarrow> 'a ndarray \<Rightarrow> (error + bool) \<times> database" where
  "SemanticStore_update_content d agent_id mem_id new_content embedding =
     (if \<not> io_ok d then (Inl StorageFailure, d)
      else (let hit = (\<lambda>r. s_id r = mem_id \<and> s_agent_id r = agent_id);
                rowcount = length (filter hit (semantic_memory d))
            in (Inr (rowcount > 0),
                d\<lparr>semantic_memory :=
                     map (\<lambda>r. if hit r then r\<lparr>s_content := new_content\<rparr> else r)
                       (semantic_memory d)\<rparr>)))"

definition SemanticStore_delete_by_id ::
  "database \<Rightarrow> pystr \<Rightarrow> int \<Rightarrow> (error + bool) \<times> database" where
  "SemanticStore_delete_by_id d agent_id mem_id =
     (if \<not> io_ok d then (Inl StorageFailure, d)
      else (let hit = (\<lambda>r. s_id r = mem_id \<and> s_agent_id r = agent_id);
                rowcount = length (filter hit (semantic_memory d))
            in (Inr (rowcount > 0),
                d\<lparr>semantic_memory := filter (\<lambda>r. \<not> hit r) (semantic_memory d)\<rparr>)))"

text \<open>
  \<open>SemanticStore\<close> defines \<open>initialize\<close>, \<open>insert\<close>, \<open>list_by_agent\<close>, \<open>get_by_ids\<close>,
  \<open>update_content\<close>, \<open>delete_by_id\<close> and \<open>search\<close>. It has no attribute \<open>clear\<close>.
\<close>

definition SemanticStore_clear :: "database \<Rightarrow> pystr \<Rightarrow> (error + int) \<times> database" where
  "SemanticStore_clear d agent_id = (Inl (AttributeError (ascii ''clear'')), d)"

section \<open>The coordinator (memory/Manager.py)\<close>

text \<open>
  The manager holds the stores, which share the database, and the vector index; its
  policy is \<open>DefaultPolicy\<close>, as \<open>MemoryFactory.create_manager\<close> builds it. Every method
  returns its outcome, \<open>Inl\<close> for a raised exception, with the state it leaves behind.
  The embedding endpoint is the parameter \<open>embedf\<close>, which returns the list of floats
  of its response or fails. \<open>DefaultProcessor.embed\<close> makes a numpy array of the list,
  which numpy types \<open>float64\<close>.
\<close>

definition DefaultProcessor_embed :: "(pystr \<Rightarrow> error + 'a list) \<Rightarrow> pystr \<Rightarrow> error + 'a ndarray" where
  "DefaultProcessor_embed embedf text =
     (case embedf text of Inl e \<Rightarrow> Inl e | Inr response \<Rightarrow> Inr (f64 response))"

record 'a MemoryManager =
  db :: database
  vector_index :: "'a VectorIndex"

datatype memory_item = Episodic episodic_row | Semantic semantic_row

definition add_event :: "'a MemoryManager \<Rightarrow> pystr \<Rightarrow> event \<Rightarrow> (error + int) \<times> 'a MemoryManager" where
  "add_event m agent_id ev =
     (if \<not> should_store_as_episodic agent_id ev then (Inr (- 1), m)
      else (case EpisodicStore_insert (db m) agent_id (content ev) (role ev) of
              (Inl e, d) \<Rightarrow> (Inl e, m\<lparr>db := d\<rparr>)
            | (Inr episodic_id, d) \<Rightarrow> (Inr episodic_id, m\<lparr>db := d\<rparr>)))"

text \<open>
  Step 2 of \<open>search_memories\<close>: the query is embedded, the index is searched with
  \<open>k = 5\<close>, and the rows of the ids found are fetched.
\<close>

definition search_memories_semantic ::
  "('a list \<Rightarrow> 'a list) \<Rightarrow> ('a list \<Rightarrow> 'a list \<Rightarrow> 's::linorder) \<Rightarrow> (pystr \<Rightarrow> error + 'a list)
     \<Rightarrow> 'a MemoryManager \<Rightarrow> pystr \<Rightarrow> pystr \<Rightarrow> (error + semantic_row list) \<times> 'a MemoryManager" where
  "search_memories_semantic nrm ip embedf m agent_id query =
     (case DefaultProcessor_embed embedf query of
        Inl e \<Rightarrow> (Inl e, m)
      | Inr embedding \<Rightarrow>
          (case fst (search nrm ip (vector_index m) agent_id embedding 5) of
             Inl e \<Rightarrow> (Inl e, m)
           | Inr semantic_ids \<Rightarrow>
               (case SemanticStore_get_by_ids (db m) agent_id semantic_ids of
                  (r, d) \<Rightarrow> (r, m\<lparr>db := d\<rparr>))))"

text \<open>\<open>search_memories\<close>: step 1, the keyword search of the events, then step 2.\<close>

definition search_memories ::
  "('a list \<Rightarrow> 'a list) \<Rightarrow> ('a list \<Rightarrow> 'a list \<Rightarrow> 's::linorder) \<Rightarrow> (pystr \<Rightarrow> error + 'a list)
     \<Rightarrow> 'a MemoryManager \<Rightarrow> pystr \<Rightarrow> pystr \<Rightarrow> (error + memory_item list) \<times> 'a MemoryManager" where
  "search_memories nrm ip embedf m agent_id query =
     (case EpisodicStore_search (db m) agent_id query of
        (Inl e, d) \<Rightarrow> (Inl e, m\<lparr>db := d\<rparr>)
      | (Inr episodic_hits, d) \<Rightarrow>
          (case search_memories_semantic nrm ip embedf (m\<lparr>db := d\<rparr>) agent_id query of
             (Inl e, m2) \<Rightarrow> (Inl e, m2)
           | (Inr semantic_hits, m2) \<Rightarrow>
               (Inr (map Episodic episodic_hits @ map Semantic semantic_hits), m2)))"

definition update_memory_content ::
  "(pystr \<Rightarrow> error + 'a list) \<Rightarrow> 'a MemoryManager \<Rightarrow> pystr \<Rightarrow> int \<Rightarrow> pystr \<Rightarrow> pystr
     \<Rightarrow> (error + bool) \<times> 'a MemoryManager" where
  "update_memory_content embedf m agent_id mem_id new_content mem_type =
     (if \<not> allow_user_to_edit_memory agent_id mem_type then (Inr False, m)
      else if mem_type = ascii ''episodic'' then
        (case EpisodicStore_update_content (db m) agent_id mem_id new_content of
           (r, d) \<Rightarrow> (r, m\<lparr>db := d\<rparr>))
      else if mem_type = ascii ''semantic'' then
        (case DefaultProcessor_embed embedf new_content of
           Inl e \<Rightarrow> (Inl e, m)
         | Inr embedding \<Rightarrow>
             (case SemanticStore_update_content (db m) agent_id mem_id new_content embedding of
                (r, d) \<Rightarrow> (r, m\<lparr>db := d\<rparr>)))
      else (Inr False, m))"

definition delete_memory ::
  "'a MemoryManager \<Rightarrow> pystr \<Rightarrow> int \<Rightarrow> pystr \<Rightarrow> (error + bool) \<times> 'a MemoryManager" where
  "delete_memory m agent_id mem_id mem_type =
     (if mem_type = ascii ''episodic'' then
        (case EpisodicStore_delete_by_id (db m) agent_id mem_id of
           (Inl e, d) \<Rightarrow> (Inl e, m\<lparr>db := d\<rparr>)
         | (Inr success, d) \<Rightarrow>
             if success then
               (case remove (vector_index m) agent_id (ascii ''episodic'') mem_id of
                  (Inl e, vi) \<Rightarrow> (Inl e, \<lparr>db = d, vector_index = vi\<rparr>)
                | (Inr _, vi) \<Rightarrow> (Inr success, \<lparr>db = d, vector_index = vi\<rparr>))
             else (Inr success, m\<lparr>db := d\<rparr>))
      else if mem_type = ascii ''semantic'' then
        (case SemanticStore_delete_by_id (db m) agent_id mem_id of
           (Inl e, d) \<Rightarrow> (Inl e, m\<lparr>db := d\<rparr>)
         | (Inr success, d) \<Rightarrow>
             if success then
               (case remove (vector_index m) agent_id (ascii ''semantic'') mem_id of
                  (Inl e, vi) \<Rightarrow> (Inl e, \<lparr>db = d, vector_index = vi\<rparr>)
                | (Inr _, vi) \<Rightarrow> (Inr success, \<lparr>db = d, vector_index = vi\<rparr>))
             else (Inr success, m\<lparr>db := d\<rparr>))
      else (Inr False, m))"

definition clear_all_memories ::
  "'a MemoryManager \<Rightarrow> pystr \<Rightarrow> (error + int) \<times> 'a MemoryManager" where
  "clear_all_memories m agent_id =
     (case EpisodicStore_clear (db m) agent_id of
        (Inl e, d1) \<Rightarrow> (Inl e, m\<lparr>db := d1\<rparr>)
      | (Inr count1, d1) \<Rightarrow>
          (case SemanticStore_clear d1 agent_id of
             (Inl e, d2) \<Rightarrow> (Inl e, m\<lparr>db := d2\<rparr>)
           | (Inr count2, d2) \<Rightarrow>
               (case clear_agent (vector_index m) agent_id of
                  (Inl e, vi) \<Rightarrow> (Inl e, \<lparr>db = d2, vector_index = vi\<rparr>)
                | (Inr _, vi) \<Rightarrow> (Inr (count1 + count2), \<lparr>db = d2, vector_index = vi\<rparr>))))"

section \<open>Runs of the index and example states\<close>

text \<open>
  A sequence of calls on a fresh \<open>VectorIndex(dim)\<close>. A call that raises leaves the
  state it had reached, and the run goes on from there, as a caller that catches the
  exception would.
\<close>

datatype 'a vi_op = Add pystr pystr int "'a ndarray" | Remove pystr pystr int | ClearAgent pystr

fun step :: "('a list \<Rightarrow> 'a list) \<Rightarrow> 'a VectorIndex \<Rightarrow> 'a vi_op \<Rightarrow> 'a VectorIndex" where
  "step nrm vi (Add a t i v) = fst (snd (add nrm vi a t i v))"
| "step nrm vi (Remove a t i) = snd (remove vi a t i)"
| "step nrm vi (ClearAgent a) = snd (clear_agent vi a)"

definition run :: "('a list \<Rightarrow> 'a list) \<Rightarrow> int \<Rightarrow> 'a vi_op list \<Rightarrow> 'a VectorIndex" where
  "run nrm d ops = foldl (step nrm) (VectorIndex_init d) ops"

text \<open>
  The examples use vectors of dimension 1 with integer components, where L2
  normalisation is exact: \<open>x / |x|\<close> is the sign of \<open>x\<close>, and the inner product of two
  normalised vectors is \<open>1\<close> or \<open>-1\<close>.
\<close>

definition normalize_1d :: "int list \<Rightarrow> int list" where
  "normalize_1d v = map sgn v"

definition dot :: "int list \<Rightarrow> int list \<Rightarrow> int" where
  "dot q v = sum_list (map2 (*) q v)"

definition semantic :: pystr where
  "semantic = ascii ''semantic''"

definition t1 :: pystr where
  "t1 = ascii ''t1''"

text \<open>Two inserts, the removal of the first, a third insert.\<close>

definition reuse_ops :: "int vi_op list" where
  "reuse_ops = [Add t1 semantic 1 (f32 [3]), Add t1 semantic 2 (f32 [- 2]), Remove t1 semantic 1,
                Add t1 semantic 3 (f32 [5])]"

text \<open>An insert, its removal, an insert of another row.\<close>

definition freed_ops :: "int vi_op list" where
  "freed_ops = [Add t1 semantic 1 (f32 [3]), Remove t1 semantic 1, Add t1 semantic 2 (f32 [- 2])]"

text \<open>
  Inserts and removals after which two keys of \<open>t1\<close> share handle 2 in \<open>key_to_id\<close>.
\<close>

definition alias_ops :: "int vi_op list" where
  "alias_ops = [Add t1 semantic 1 (f32 [3]), Add t1 semantic 2 (f32 [3]), Add t1 semantic 3 (f32 [3]),
                Remove t1 semantic 1, Add t1 semantic 4 (f32 [3]), Remove t1 semantic 2,
                Add t1 semantic 5 (f32 [3])]"

text \<open>
  A tenant whose name contains the separator of the keys, beside the tenant \<open>a\<close>.
\<close>

definition tenant_a :: pystr where
  "tenant_a = ascii ''a''"

definition tenant_a_semantic_1 :: pystr where
  "tenant_a_semantic_1 = ascii ''a:semantic:1''"

definition colon_ops :: "int vi_op list" where
  "colon_ops = [Add tenant_a_semantic_1 semantic 1 (f32 [3])]"

text \<open>
  The scenario of the specification: tenant \<open>t1\<close> has one event, one summary and the
  vector of the summary.
\<close>

definition cats_db :: database where
  "cats_db =
     \<lparr>io_ok = True,
      episodic_memory = [\<lparr>e_id = 1, e_agent_id = t1,
                          e_content = ascii ''I love cats and live in Paris'',
                          e_role = ascii ''user''\<rparr>],
      episodic_seq = 1,
      semantic_memory = [\<lparr>s_id = 1, s_agent_id = t1, s_content = ascii ''User loves cats'',
                          s_metadata = ascii ''{}''\<rparr>],
      semantic_seq = 1\<rparr>"

definition cats_manager :: "int MemoryManager" where
  "cats_manager = \<lparr>db = cats_db, vector_index = run normalize_1d 1 [Add t1 semantic 1 (f32 [3])]\<rparr>"

text \<open>An embedding endpoint that is down, and one that answers.\<close>

definition embed_down :: "pystr \<Rightarrow> error + int list" where
  "embed_down text = Inl EmbeddingFailure"

definition embed_up :: "pystr \<Rightarrow> error + int list" where
  "embed_up text = Inr [- 4]"




definition shout :: event where
  "shout = \<lparr>content = ascii ''HELLO'', role = ascii ''user''\<rparr>"

definition offline_manager :: "int MemoryManager" where
  "offline_manager = cats_manager\<lparr>db := cats_db\<lparr>io_ok := False\<rparr>\<rparr>"

definition paris :: event where
  "paris = \<lparr>content = ascii ''I love cats and live in Paris'', role = ascii ''user''\<rparr>"

definition whisper :: event where
  "whisper = \<lparr>content = ascii ''  ok  '', role = ascii ''user''\<rparr>"









section \<open>Predicates of the statements\<close>




text \<open>
  No handle is held twice: FAISS stores no identifier twice, \<open>id_to_key\<close> has no handle
  twice, and every live handle is an identifier that FAISS stores, other than the
  padding value.
\<close>

definition handles_sound :: "'a VectorIndex \<Rightarrow> bool" where
  "handles_sound vi \<longleftrightarrow>
     distinct (map fst (index vi)) \<and> distinct (map fst (id_to_key vi)) \<and>
     list_all (\<lambda>(h, key). h \<noteq> - 1 \<and> h \<in> fst ` set (index vi)) (id_to_key vi)"

text \<open>
  A run of inserts alone, each of a key of its own, with an array that FAISS takes and
  that has the dimension \<open>d\<close> of the index.
\<close>

fun key_of :: "'a vi_op \<Rightarrow> pystr" where
  "key_of (Add a t i v) = make_key a t i"
| "key_of (Remove a t i) = make_key a t i"
| "key_of (ClearAgent a) = a"

fun good_insert :: "int \<Rightarrow> 'a vi_op \<Rightarrow> bool" where
  "good_insert d (Add a t i v) \<longleftrightarrow>
     dtype v = Float32 \<and> contiguous v \<and> int (length (elems v)) = d"
| "good_insert d (Remove a t i) \<longleftrightarrow> False"
| "good_insert d (ClearAgent a) \<longleftrightarrow> False"

definition inserts_only :: "int \<Rightarrow> 'a vi_op list \<Rightarrow> bool" where
  "inserts_only d ops \<longleftrightarrow> list_all (good_insert d) ops \<and> distinct (map key_of ops)"

text \<open>\<open>keys_parse\<close>: every key of \<open>id_to_key\<close> that the loop of \<open>search\<close> would parse does parse.\<close>

definition keys_parse :: "'a VectorIndex \<Rightarrow> bool" where
  "keys_parse vi \<longleftrightarrow> list_all (\<lambda>(h, key). key = [] \<or> \<not> isl (parse_key key)) (id_to_key vi)"

text \<open>An insert whose tenant and kind do not contain the separator \<open>:\<close> of the keys.\<close>

fun colon_free_op :: "'a vi_op \<Rightarrow> bool" where
  "colon_free_op (Add a t i v) \<longleftrightarrow> 58 \<notin> set a \<and> 58 \<notin> set t"
| "colon_free_op (Remove a t i) \<longleftrightarrow> True"
| "colon_free_op (ClearAgent a) \<longleftrightarrow> True"


section \<open>Evaluation rules\<close>

lemma search_loop_padding [simp]:
  "search_loop i2k a k (replicate n (- 1)) res = Inr res"
  by (induction n) auto

lemmas index_eval = run_def add_def remove_def remove_by_key_def make_key_def ascii_def
  str_int_def str_nat.simps VectorIndex_init_def Let_def clear_agent_def
  faiss_normalize_L2_def f32_def f64_def normalize_1d_def semantic_def t1_def

lemmas search_eval = search_def faiss_search_def parse_key_def py_int_def
  decimal_and_space_to_ascii_def int_isspace_def is_digit_def dot_def

lemmas store_eval = EpisodicStore_insert_def EpisodicStore_update_content_def
  EpisodicStore_delete_by_id_def EpisodicStore_clear_def EpisodicStore_search_def
  SemanticStore_insert_def SemanticStore_get_by_ids_def SemanticStore_update_content_def
  SemanticStore_delete_by_id_def SemanticStore_clear_def cats_db_def cats_manager_def

section \<open>Handles of the index\<close>

text \<open>
  C1. Claimed: each \<open>add\<close> allocates a handle strictly greater than every handle
  allocated before, and a handle freed by a removal is never assigned again. The code
  takes \<open>len(self.id_to_key)\<close> as the new handle, which shrinks with every removal.
  After two inserts (handles 0 and 1) and the removal of the first, the third insert
  gets handle 1 again, while row 2 still holds it: \<open>id_to_key\<close> loses row 2, FAISS
  stores two vectors under 1, and a query equal to the vector of row 2 returns row 3,
  twice. In the second run the handle 0 freed by the removal is assigned to the next
  insert.
\<close>

theorem add_reuses_live_handle:
  "key_to_id (run normalize_1d 1 reuse_ops) =
     [(make_key t1 semantic 2, 1), (make_key t1 semantic 3, 1)] \<and>
   id_to_key (run normalize_1d 1 reuse_ops) = [(1, make_key t1 semantic 3)] \<and>
   index (run normalize_1d 1 reuse_ops) = [(0, [1]), (1, [- 1]), (1, [1])] \<and>
   fst (search normalize_1d dot (run normalize_1d 1 reuse_ops) t1 (f32 [- 7]) 5) = Inr [3, 3] \<and>
   key_to_id (run normalize_1d 1 freed_ops) = [(make_key t1 semantic 2, 0)] \<and>
   index (run normalize_1d 1 freed_ops) = [(0, [1]), (0, [- 1])]"
  by (simp add: reuse_ops_def freed_ops_def index_eval search_eval)

section \<open>Hybrid search and the embedding endpoint\<close>

text \<open>
  Step 2 of \<open>search_memories\<close> has no handler: a failure of the embedding call is raised
  on, with nothing changed. When the endpoint answers, the array that
  \<open>DefaultProcessor.embed\<close> makes of the answer is \<open>float64\<close>, which the search of the
  index refuses: step 2 never returns rows.
\<close>

lemma search_memories_semantic_embedding_failure:
  assumes "embedf query = Inl e"
  shows "search_memories_semantic nrm ip embedf m agent_id query = (Inl e, m)"
  using assms by (simp add: search_memories_semantic_def DefaultProcessor_embed_def)

lemma search_memories_semantic_float64:
  assumes "embedf query = Inr response"
  shows "search_memories_semantic nrm ip embedf m agent_id query = (Inl TypeError, m)"
  using assms
  by (simp add: search_memories_semantic_def DefaultProcessor_embed_def search_def
        faiss_normalize_L2_def f64_def)

text \<open>
  C2. Claimed: when the embedding call fails, \<open>search_memories\<close> still returns normally,
  with the keyword results alone. \<open>search_memories\<close> looks up \<open>search\<close> on the
  \<open>EpisodicStore\<close>, which defines \<open>search_by_agent\<close> and no \<open>search\<close>: for a tenant whose
  event matches the query the call raises \<open>AttributeError\<close> and returns no keyword
  result, with the endpoint down and with the endpoint up.
\<close>

theorem search_memories_raises_when_embedding_down:
  "search_memories normalize_1d dot embed_down cats_manager t1 (ascii ''cats'') =
     (Inl (AttributeError (ascii ''search'')), cats_manager) \<and>
   search_memories normalize_1d dot embed_up cats_manager t1 (ascii ''cats'') =
     (Inl (AttributeError (ascii ''search'')), cats_manager) \<and>
   embed_down (ascii ''cats'') = Inl EmbeddingFailure"
  by (simp add: search_memories_def store_eval embed_down_def)

section \<open>Updating a summary\<close>

text \<open>
  \<open>update_memory_content\<close> never changes the vector index, whatever the kind, the
  policy and the outcome of the embedding call.
\<close>

lemma update_memory_content_index:
  "vector_index (snd (update_memory_content embedf m agent_id mem_id new_content mem_type)) =
   vector_index m"
  by (simp add: update_memory_content_def EpisodicStore_update_content_def
        SemanticStore_update_content_def DefaultProcessor_embed_def Let_def split: sum.splits)

text \<open>
  C3. Claimed: a successful update of a summary re-embeds the new content and upserts
  the vector into the index under the key of the summary. The update of summary 1 of
  \<open>t1\<close> succeeds and rewrites the row, the endpoint returns \<open>[-4]\<close> for the new
  content, and the index still holds the vector of the old content, \<open>[1]\<close>, and
  nothing else: the embedding is handed to \<open>SemanticStore.update_content\<close>, which
  drops it.
\<close>

theorem update_leaves_old_vector:
  "update_memory_content embed_up cats_manager t1 1 (ascii ''User loves dogs'') semantic =
     (Inr True,
      cats_manager\<lparr>db := cats_db\<lparr>semantic_memory :=
        [\<lparr>s_id = 1, s_agent_id = t1, s_content = ascii ''User loves dogs'',
          s_metadata = ascii ''{}''\<rparr>]\<rparr>\<rparr>) \<and>
   embed_up (ascii ''User loves dogs'') = Inr [- 4] \<and>
   index (vector_index (snd (update_memory_content embed_up cats_manager t1 1
            (ascii ''User loves dogs'') semantic))) = [(0, [1])]"
  by (simp add: update_memory_content_def allow_user_to_edit_memory_def embed_up_def
        DefaultProcessor_embed_def store_eval index_eval)

section \<open>Tenants\<close>

text \<open>
  C4. Claimed: a search scoped to tenant B never returns a row id inserted under
  another tenant A, and \<open>clear_agent(B)\<close> never removes an entry of A. Keys are the
  tenant, the kind and the row id joined by colons, and are taken apart again at the
  colons. Tenant \<open>a:semantic:1\<close> inserts its row 1; the key then reads as row 1 of kind
  \<open>semantic\<close> of tenant \<open>a\<close>. A search of tenant \<open>a\<close>, who has inserted nothing, returns
  row id 1; a search of the owner returns nothing; and \<open>clear_agent\<close> of tenant \<open>a\<close>
  removes the owner's entry, whose key starts with \<open>a:\<close>.
\<close>

theorem colon_tenant_crosses_tenants:
  "fst (search normalize_1d dot (run normalize_1d 1 colon_ops) tenant_a (f32 [3]) 5) = Inr [1] \<and>
   fst (search normalize_1d dot (run normalize_1d 1 colon_ops) tenant_a_semantic_1 (f32 [3]) 5) = Inr [] \<and>
   key_to_id (run normalize_1d 1 colon_ops) = [(make_key tenant_a_semantic_1 semantic 1, 0)] \<and>
   key_to_id (run normalize_1d 1 (colon_ops @ [ClearAgent tenant_a])) = [] \<and>
   id_to_key (run normalize_1d 1 (colon_ops @ [ClearAgent tenant_a])) = []"
  by (simp add: colon_ops_def tenant_a_def tenant_a_semantic_1_def index_eval search_eval)

section \<open>Erasing a tenant\<close>

text \<open>
  C5. Claimed: after \<open>clear_all_memories\<close> of a tenant no search scoped to the tenant
  returns an id and no record is left. The call clears the events, then looks up
  \<open>clear\<close> on the \<open>SemanticStore\<close>, which does not define it: the call raises
  \<open>AttributeError\<close> before \<open>clear_agent\<close> is reached. The summary of \<open>t1\<close> is still in
  its table, its vector is still live, and a search of \<open>t1\<close> returns its id.
  \<open>clear_agent\<close> itself can stop half way: where two keys share a handle, the second
  removal raises \<open>KeyError\<close>, and row 5 of \<open>t1\<close>, next in line, stays live and is found.
\<close>

theorem clear_all_memories_leaves_summaries:
  "clear_all_memories cats_manager t1 =
     (Inl (AttributeError (ascii ''clear'')),
      cats_manager\<lparr>db := cats_db\<lparr>episodic_memory := []\<rparr>\<rparr>) \<and>
   semantic_memory (db (snd (clear_all_memories cats_manager t1))) = semantic_memory cats_db \<and>
   fst (search normalize_1d dot (vector_index (snd (clear_all_memories cats_manager t1)))
          t1 (f32 [3]) 5) = Inr [1] \<and>
   fst (clear_agent (run normalize_1d 1 alias_ops) t1) = Inl KeyError \<and>
   id_to_key (snd (clear_agent (run normalize_1d 1 alias_ops) t1)) = [(1, make_key t1 semantic 5)] \<and>
   fst (search normalize_1d dot (snd (clear_agent (run normalize_1d 1 alias_ops) t1))
          t1 (f32 [3]) 5) = Inr [5, 5]"
  by (simp add: clear_all_memories_def alias_ops_def store_eval index_eval search_eval)

section \<open>Admission of events\<close>

text \<open>
  C6, as claimed: an event is admitted iff its trimmed content has at least 5
  characters and is not in the stop list. \<open>HELLO\<close> has 5 characters and is not in the
  stop list, whose entry is \<open>hello\<close>; it is rejected all the same, because the policy
  lower-cases the content before it looks it up.
\<close>

theorem add_event_rejects_shouted_hello:
  "add_event cats_manager t1 shout = (Inr (- 1), cats_manager) \<and>
   5 \<le> length (py_strip (content shout)) \<and>
   py_strip (content shout) \<notin> stop_list"
  by (simp add: add_event_def should_store_as_episodic_def shout_def py_strip_def
        py_isspace_def py_lower_def stop_list_def ascii_def)

text \<open>
  C6, amended: an event is admitted iff its trimmed content has at least 5 characters
  and the lower-cased trimmed content is not in the stop list. A rejected event
  returns \<open>-1\<close> and leaves every store as it was. An admitted event, when the store
  answers, is appended to the tenant's events under a new id, which is returned and
  is not \<open>-1\<close>.
\<close>

theorem add_event_gated:
  "(\<not> (5 \<le> length (py_strip (content ev)) \<and> py_lower (py_strip (content ev)) \<notin> stop_list) \<longrightarrow>
      add_event m agent_id ev = (Inr (- 1), m)) \<and>
   (5 \<le> length (py_strip (content ev)) \<and> py_lower (py_strip (content ev)) \<notin> stop_list \<longrightarrow>
    io_ok (db m) \<longrightarrow> 0 \<le> episodic_seq (db m) \<longrightarrow>
      add_event m agent_id ev =
        (Inr (episodic_seq (db m) + 1),
         m\<lparr>db := (db m)\<lparr>episodic_memory := episodic_memory (db m) @
                     [\<lparr>e_id = episodic_seq (db m) + 1, e_agent_id = agent_id,
                       e_content = content ev, e_role = role ev\<rparr>],
                   episodic_seq := episodic_seq (db m) + 1\<rparr>\<rparr>) \<and>
      episodic_seq (db m) + 1 \<noteq> - 1)"
  by (auto simp: add_event_def should_store_as_episodic_def EpisodicStore_insert_def Let_def)

theorem add_event_gated_witness:
  "add_event cats_manager t1 whisper = (Inr (- 1), cats_manager) \<and>
   length (py_strip (content whisper)) = 2 \<and>
   5 \<le> length (py_strip (content paris)) \<and>
   py_lower (py_strip (content paris)) \<notin> stop_list \<and>
   io_ok (db cats_manager) \<and> 0 \<le> episodic_seq (db cats_manager) \<and>
   fst (add_event cats_manager t1 paris) = Inr 2 \<and>
   episodic_memory (db (snd (add_event cats_manager t1 paris))) =
     episodic_memory cats_db @
     [\<lparr>e_id = 2, e_agent_id = t1, e_content = content paris, e_role = role paris\<rparr>]"
  using add_event_gated [of whisper cats_manager t1] add_event_gated [of paris cats_manager t1]
  by (simp add: whisper_def paris_def py_strip_def py_isspace_def py_lower_def stop_list_def
        ascii_def store_eval)

section \<open>Deleting an item\<close>

text \<open>
  C7. \<open>delete_memory\<close> changes the vector index only after the store has deleted a row:
  when the store raises, or no row of the store has that id and tenant, the index is
  left as it was, and the call does not report success. For a kind that is neither
  \<open>episodic\<close> nor \<open>semantic\<close> nothing is touched either.
\<close>

theorem delete_memory_store_then_index:
  assumes "mem_type = ascii ''episodic'' \<Longrightarrow>
             \<not> io_ok (db m) \<or>
             \<not> list_ex (\<lambda>r. e_id r = mem_id \<and> e_agent_id r = agent_id) (episodic_memory (db m))"
      and "mem_type = ascii ''semantic'' \<Longrightarrow>
             \<not> io_ok (db m) \<or>
             \<not> list_ex (\<lambda>r. s_id r = mem_id \<and> s_agent_id r = agent_id) (semantic_memory (db m))"
  shows "vector_index (snd (delete_memory m agent_id mem_id mem_type)) = vector_index m \<and>
         fst (delete_memory m agent_id mem_id mem_type) \<noteq> Inr True"
proof -
  have none: "filter P xs = [] \<longleftrightarrow> \<not> list_ex P xs" for P :: "'b \<Rightarrow> bool" and xs
    by (simp add: list_ex_iff filter_empty_conv)
  consider (e) "mem_type = ascii ''episodic''"
    | (s) "mem_type \<noteq> ascii ''episodic''" "mem_type = ascii ''semantic''"
    | (o) "mem_type \<noteq> ascii ''episodic''" "mem_type \<noteq> ascii ''semantic''"
    by blast
  then show ?thesis
  proof cases
    case e
    with assms(1) show ?thesis
      by (auto simp: delete_memory_def EpisodicStore_delete_by_id_def Let_def none)
  next
    case s
    with assms(2) show ?thesis
      by (auto simp: delete_memory_def SemanticStore_delete_by_id_def Let_def none)
  next
    case o
    then show ?thesis by (simp add: delete_memory_def)
  qed
qed

theorem delete_memory_store_then_index_witness:
  "\<not> io_ok (db offline_manager) \<and>
   vector_index (snd (delete_memory offline_manager t1 1 semantic)) =
     vector_index offline_manager \<and>
   fst (delete_memory offline_manager t1 1 semantic) = Inl StorageFailure \<and>
   \<not> list_ex (\<lambda>r. s_id r = 2 \<and> s_agent_id r = t1) (semantic_memory (db cats_manager)) \<and>
   vector_index (snd (delete_memory cats_manager t1 2 semantic)) = vector_index cats_manager \<and>
   fst (delete_memory cats_manager t1 2 semantic) = Inr False"
  using delete_memory_store_then_index [of semantic offline_manager 1 t1]
        delete_memory_store_then_index [of semantic cats_manager 2 t1]
  by (simp add: offline_manager_def delete_memory_def store_eval semantic_def ascii_def)

section \<open>Keys\<close>

text \<open>
  A key made from a tenant and a kind that contain no colon parses back to the tenant,
  the kind and the row id: \<open>int\<close> reads back what \<open>str\<close> wrote.
\<close>

lemma py_split_no_sep: "sep \<notin> set s \<Longrightarrow> py_split sep s = [s]"
  by (induction s) auto

lemma py_split_append:
  "sep \<notin> set a \<Longrightarrow> py_split sep (a @ sep # rest) = a # py_split sep rest"
  by (induction a) (auto split: list.splits)

lemma py_split_nonempty: "py_split sep s \<noteq> []"
  by (induction s) (auto split: list.splits)

lemma str_nat_digits: "list_all is_digit (str_nat n) \<and> str_nat n \<noteq> []"
proof (induction n rule: str_nat.induct)
  case (1 n)
  show ?case
  proof (cases "n < 10")
    case True
    then show ?thesis by (simp add: str_nat.simps [of n] is_digit_def)
  next
    case False
    have "n mod 10 < 10" by simp
    with False 1 show ?thesis
      by (simp add: str_nat.simps [of n] is_digit_def)
  qed
qed

lemma digits_value_snoc:
  "list_all is_digit ds \<Longrightarrow> is_digit d \<Longrightarrow>
   digits_value acc (ds @ [d]) = map_option (\<lambda>v. v * 10 + (d - 48)) (digits_value acc ds)"
proof (induction acc ds rule: digits_value.induct)
  case (1 acc)
  then show ?case by simp
next
  case (2 acc c)
  then show ?case by (simp add: is_digit_def)
next
  case (3 acc c e cs)
  then show ?case by (auto simp: is_digit_def)
qed

lemma digits_value_str_nat: "digits_value 0 (str_nat n) = Some n"
proof (induction n rule: str_nat.induct)
  case (1 n)
  show ?case
  proof (cases "n < 10")
    case True
    then show ?thesis by (simp add: str_nat.simps [of n] is_digit_def)
  next
    case False
    have d: "is_digit (48 + n mod 10)" by (simp add: is_digit_def)
    from False 1 str_nat_digits [of "n div 10"] d show ?thesis
      by (simp add: str_nat.simps [of n] digits_value_snoc)
  qed
qed

lemma strip_id:
  assumes "s \<noteq> []" "\<not> P (hd s)" "\<not> P (last s)"
  shows "rev (dropWhile P (rev (dropWhile P s))) = s"
proof -
  from assms have 1: "dropWhile P s = s" by (cases s) auto
  from assms have "rev s \<noteq> []" "\<not> P (hd (rev s))" by (auto simp: hd_rev)
  then have "dropWhile P (rev s) = rev s" by (cases "rev s") auto
  with 1 show ?thesis by simp
qed

lemma digit_not_space: "is_digit c \<Longrightarrow> \<not> int_isspace c"
  by (auto simp: is_digit_def int_isspace_def)

lemma str_nat_ends:
  "is_digit (hd (str_nat n)) \<and> is_digit (last (str_nat n))"
  using str_nat_digits [of n] by (auto simp: list_all_iff)

lemma str_int_ascii: "list_all (\<lambda>c. c < 128) (str_int i)"
proof -
  have "list_all (\<lambda>c. c < 128) (str_nat n)" for n
    using str_nat_digits [of n] by (auto simp: list_all_iff is_digit_def)
  then show ?thesis by (simp add: str_int_def)
qed

lemma py_int_str_int: "py_int (str_int i) = Inr i"
proof (cases "i < 0")
  case True
  let ?ds = "str_nat (nat (- i))"
  have ne: "?ds \<noteq> []" using str_nat_digits by blast
  have "\<not> int_isspace (last (45 # ?ds))"
    using ne str_nat_ends [of "nat (- i)"] by (simp add: digit_not_space)
  moreover have "\<not> int_isspace 45" by (simp add: int_isspace_def)
  ultimately have "rev (dropWhile int_isspace (rev (dropWhile int_isspace (45 # ?ds)))) = 45 # ?ds"
    by (intro strip_id) auto
  with True ne str_int_ascii [of i] show ?thesis
    by (simp add: py_int_def str_int_def digits_value_str_nat decimal_and_space_to_ascii_def)
next
  case False
  let ?ds = "str_nat (nat i)"
  have ne: "?ds \<noteq> []" using str_nat_digits by blast
  from str_nat_ends [of "nat i"]
  have strip: "rev (dropWhile int_isspace (rev (dropWhile int_isspace ?ds))) = ?ds"
    using ne by (intro strip_id) (auto simp: digit_not_space)
  obtain c cs where cs: "?ds = c # cs" using ne by (cases ?ds) auto
  with str_nat_ends [of "nat i"] have "is_digit c" by simp
  then have "c \<noteq> 45" "c \<noteq> 43" by (auto simp: is_digit_def)
  with False strip cs digits_value_str_nat [of "nat i"] str_int_ascii [of i] show ?thesis
    by (simp add: py_int_def str_int_def decimal_and_space_to_ascii_def)
qed

lemma str_int_no_colon: "58 \<notin> set (str_int i)"
proof -
  have "58 \<notin> set (str_nat n)" for n
    using str_nat_digits [of n] by (auto simp: list_all_iff is_digit_def)
  then show ?thesis by (simp add: str_int_def)
qed

lemma parse_make_key:
  assumes "58 \<notin> set agent_id" "58 \<notin> set mem_type"
  shows "parse_key (make_key agent_id mem_type mem_id) = Inr (agent_id, mem_type, mem_id)"
  using assms
  by (simp add: parse_key_def make_key_def py_split_append py_split_no_sep str_int_no_colon
        py_int_str_int)

lemma parse_key_tenant:
  assumes "58 \<notin> set agent_id" "parse_key (make_key agent_id mem_type mem_id) = Inr (aid, mtype, mid)"
  shows "aid = agent_id"
  using assms py_split_nonempty [of 58 "mem_type @ 58 # str_int mem_id"]
  by (auto simp: parse_key_def make_key_def py_split_append split: list.splits sum.splits)

section \<open>Runs with tenants and kinds free of colons\<close>

text \<open>
  Every live key of a run was made by one of its inserts. When no insert of the run
  has a colon in its tenant or kind, every live key parses.
\<close>

lemma set_delete_subset: "set (AList.delete k al) \<subseteq> set al"
  by (auto simp: AList.delete_eq)

lemma set_update_subset: "set (AList.update k v al) \<subseteq> insert (k, v) (set al)"
  by (induction al) auto

lemma remove_by_key_live:
  "set (id_to_key (snd (remove_by_key vi key))) \<subseteq> set (id_to_key vi)"
  using set_delete_subset [of _ "id_to_key vi"]
  by (auto simp: remove_by_key_def Let_def split: option.splits)

lemma remove_keys_live:
  "set (id_to_key (snd (remove_keys vi ks))) \<subseteq> set (id_to_key vi)"
proof (induction ks arbitrary: vi)
  case Nil
  then show ?case by simp
next
  case (Cons k ks)
  obtain r vi1 where r: "remove_by_key vi k = (r, vi1)" by (cases "remove_by_key vi k")
  with remove_by_key_live [of vi k] have sub: "set (id_to_key vi1) \<subseteq> set (id_to_key vi)" by simp
  show ?case
  proof (cases r)
    case (Inl e)
    with r sub show ?thesis by simp
  next
    case (Inr u)
    with r sub Cons.IH [of vi1] show ?thesis by auto
  qed
qed

lemma add_live:
  "set (id_to_key (fst (snd (add nrm vi a t i v)))) \<subseteq>
   set (id_to_key vi) \<union> {(h, make_key a t i) | h. True}"
proof -
  let ?key = "make_key a t i"
  let ?pre = "if map_of (key_to_id vi) ?key \<noteq> None then remove_by_key vi ?key else (Inr (), vi)"
  obtain r vi1 where pre: "?pre = (r, vi1)" by (cases ?pre)
  have sub: "set (id_to_key vi1) \<subseteq> set (id_to_key vi)"
    using pre remove_by_key_live [of vi ?key] by (auto split: if_splits)
  show ?thesis
  proof (cases r)
    case (Inl e)
    with pre sub show ?thesis by (auto simp: add_def Let_def)
  next
    case (Inr u)
    with pre sub
      set_update_subset [of "int (length (id_to_key vi1))" ?key "id_to_key vi1"]
    show ?thesis by (auto simp: add_def Let_def split: sum.splits)
  qed
qed

lemma step_live:
  assumes "(h, key) \<in> set (id_to_key (step nrm vi op))"
  shows "(h, key) \<in> set (id_to_key vi) \<or> (\<exists>a t i v. op = Add a t i v \<and> key = make_key a t i)"
proof (cases op)
  case (Add a t i v)
  with assms add_live [of nrm vi a t i v] show ?thesis by auto
next
  case (Remove a t i)
  with assms remove_by_key_live [of vi "make_key a t i"] show ?thesis
    by (auto simp: remove_def)
next
  case (ClearAgent a)
  with assms remove_keys_live [of vi] show ?thesis
    by (auto simp: clear_agent_def Let_def)
qed

lemma run_snoc: "run nrm d (ops @ [op]) = step nrm (run nrm d ops) op"
  by (simp add: run_def)

lemma run_live:
  "(h, key) \<in> set (id_to_key (run nrm d ops)) \<Longrightarrow>
   \<exists>a t i v. Add a t i v \<in> set ops \<and> key = make_key a t i"
proof (induction ops arbitrary: h key rule: rev_induct)
  case Nil
  then show ?case by (simp add: run_def VectorIndex_init_def)
next
  case (snoc op ops)
  from snoc.prems step_live [of h key nrm "run nrm d ops" op]
  have "(h, key) \<in> set (id_to_key (run nrm d ops)) \<or>
        (\<exists>a t i v. op = Add a t i v \<and> key = make_key a t i)"
    by (simp add: run_snoc)
  then show ?case
  proof
    assume "(h, key) \<in> set (id_to_key (run nrm d ops))"
    from snoc.IH [OF this] show ?thesis by auto
  next
    assume "\<exists>a t i v. op = Add a t i v \<and> key = make_key a t i"
    then show ?thesis by auto
  qed
qed

lemma keys_parse_run:
  assumes "list_all colon_free_op ops"
  shows "keys_parse (run nrm d ops)"
  unfolding keys_parse_def list_all_iff
proof
  fix e assume mem: "e \<in> set (id_to_key (run nrm d ops))"
  obtain h key where "e = (h, key)" by (cases e)
  with mem have e: "e = (h, key)" "(h, key) \<in> set (id_to_key (run nrm d ops))" by simp_all
  from run_live [OF e(2)] obtain a t i v where
    op: "Add a t i v \<in> set ops" "key = make_key a t i" by blast
  with assms have "58 \<notin> set a" "58 \<notin> set t" by (auto simp: list_all_iff)
  with op(2) parse_make_key [of a t i] e(1)
  show "case e of (h, key) \<Rightarrow> key = [] \<or> \<not> isl (parse_key key)" by simp
qed

section \<open>Bounded search\<close>

text \<open>
  What a search that returns has done: the query was a contiguous \<open>float32\<close> array of
  the dimension of the index, it has been normalised, and the loop has run over the
  \<open>3k\<close> candidates of FAISS.
\<close>

lemma search_Inr:
  assumes "search nrm ip vi agent_id q k = (Inr ids, q')"
  shows "dtype q = Float32" "contiguous q" "q' = q\<lparr>elems := nrm (elems q)\<rparr>"
    "int (length (elems q)) = dim vi" "0 < k"
    "search_loop (id_to_key vi) agent_id k
       (faiss_search ip (index vi) (nrm (elems q)) (nat (k * 3))) [] = Inr ids"
  using assms
  by (auto simp: search_def faiss_normalize_L2_def split: if_splits)



lemma search_loop_members:
  "search_loop i2k a k cs acc = Inr ids \<Longrightarrow> mid \<in> set ids \<Longrightarrow>
   mid \<in> set acc \<or> (\<exists>idx\<in>set cs. \<exists>key. map_of i2k idx = Some key \<and>
                         parse_key key = Inr (a, ascii ''semantic'', mid))"
proof (induction cs arbitrary: acc)
  case Nil
  then show ?case by simp
next
  case (Cons idx rest)
  from Cons.prems Cons.IH [of acc] Cons.IH [of "acc @ [m]" for m]
  show ?case
    by (fastforce split: if_splits option.splits sum.splits prod.splits)
qed











text \<open>
  An index filled by inserts alone, each of a key of its own, hands out the handles
  \<open>0, 1, 2, \<dots>\<close> in turn, and no handle is held twice.
\<close>

lemma update_fresh: "k \<notin> fst ` set al \<Longrightarrow> AList.update k v al = al @ [(k, v)]"
  by (induction al) auto

lemma inserts_only_run:
  assumes "inserts_only d ops"
  shows "id_to_key (run nrm d ops) = zip (map int [0..<length ops]) (map key_of ops) \<and>
         key_to_id (run nrm d ops) = zip (map key_of ops) (map int [0..<length ops]) \<and>
         map fst (index (run nrm d ops)) = map int [0..<length ops] \<and>
         dim (run nrm d ops) = d"
  using assms
proof (induction ops rule: rev_induct)
  case Nil
  then show ?case by (simp add: run_def VectorIndex_init_def)
next
  case (snoc op ops)
  let ?vi = "run nrm d ops"
  let ?n = "length ops"
  from snoc.prems have prev: "inserts_only d ops" and good: "good_insert d op"
    and new: "key_of op \<notin> set (map key_of ops)"
    by (auto simp: inserts_only_def)
  note ih = snoc.IH [OF prev]
  from good obtain a t i v where op: "op = Add a t i v"
    and v: "dtype v = Float32" "contiguous v" "int (length (elems v)) = d"
    by (cases op) auto
  from ih have keys: "map fst (key_to_id ?vi) = map key_of ops"
    by simp
  have kfresh: "make_key a t i \<notin> fst ` set (key_to_id ?vi)"
    using new op keys by (metis key_of.simps(1) set_map)
  then have nokey: "map_of (key_to_id ?vi) (make_key a t i) = None"
    by (simp add: map_of_eq_None_iff)
  from ih have "map fst (id_to_key ?vi) = map int [0..<?n]"
    by simp
  then have "fst ` set (id_to_key ?vi) = set (map int [0..<?n])"
    by (metis set_map)
  then have hfresh: "int ?n \<notin> fst ` set (id_to_key ?vi)"
    by auto
  from ih have len: "length (id_to_key ?vi) = ?n" and dimd: "dim ?vi = d" by simp_all
  have "step nrm ?vi op =
          ?vi\<lparr>id_to_key := id_to_key ?vi @ [(int ?n, make_key a t i)],
               key_to_id := key_to_id ?vi @ [(make_key a t i, int ?n)],
               index := index ?vi @ [(int ?n, nrm (elems v))]\<rparr>"
    using nokey v dimd
    by (simp add: op add_def faiss_normalize_L2_def Let_def len
          update_fresh [OF hfresh] update_fresh [OF kfresh])
  with ih show ?case
    by (simp add: run_snoc op)
qed

lemma inserts_only_handles_sound:
  assumes "inserts_only d ops"
  shows "handles_sound (run nrm d ops)"
proof -
  note r = inserts_only_run [OF assms, of nrm]
  have "distinct (map int [0..<length ops])"
    by (simp add: distinct_map inj_on_def)
  moreover have "map fst (id_to_key (run nrm d ops)) = map int [0..<length ops]"
    using r by simp
  moreover have "h \<noteq> - 1 \<and> h \<in> fst ` set (index (run nrm d ops))"
    if "(h, key) \<in> set (id_to_key (run nrm d ops))" for h key
  proof -
    from that r have "h \<in> set (map int [0..<length ops])" by (auto dest!: set_zip_leftD)
    moreover from r have "fst ` set (index (run nrm d ops)) = set (map int [0..<length ops])"
      by (metis set_map)
    ultimately show ?thesis by auto
  qed
  ultimately show ?thesis
    using r by (auto simp: handles_sound_def list_all_iff)
qed




text \<open>
  In a run whose inserts have no colon in tenant or kind, a search returns only row ids
  that the searching tenant inserted itself, with kind \<open>semantic\<close>.
\<close>

lemma search_isolated:
  assumes free: "list_all colon_free_op ops"
      and ret: "search nrm ip (run nrm d ops) agent_id q k = (Inr ids, q')"
      and mid: "mid \<in> set ids"
  shows "\<exists>v. Add agent_id (ascii ''semantic'') mid v \<in> set ops"
proof -
  let ?vi = "run nrm d ops"
  from search_loop_members [OF search_Inr(6) [OF ret] mid] obtain idx key where
    key: "map_of (id_to_key ?vi) idx = Some key"
         "parse_key key = Inr (agent_id, ascii ''semantic'', mid)" by auto
  from key(1) have "(idx, key) \<in> set (id_to_key ?vi)" by (rule map_of_SomeD)
  from run_live [OF this] obtain a t i v where
    op: "Add a t i v \<in> set ops" "key = make_key a t i" by blast
  with free have "58 \<notin> set a" "58 \<notin> set t" by (auto simp: list_all_iff)
  with op(2) key(2) parse_make_key [of a t i]
  have "a = agent_id" "t = ascii ''semantic''" "i = mid" by simp_all
  with op(1) show ?thesis by blast
qed

section \<open>Normalisation in place\<close>









section \<open>The promotion trigger\<close>






end
